theory Spec2Isabelle
  imports Main "HOL-Library.Log_Nat" "HOL-Library.Multiset"
begin

section \<open>Strings\<close>

text \<open>
  The document is modelled as ASCII text: a \<^typ>\<open>string\<close> is a list of 8-bit characters,
  \<open>trim\<close> strips the ASCII white space and line terminators of ECMAScript, and
  \<open>toLowerCase\<close> maps \<open>A..Z\<close> to \<open>a..z\<close>.
\<close>

definition isWhiteSpace :: "char \<Rightarrow> bool" where
  "isWhiteSpace c =
     (c \<in> set [CHR 0x09, CHR 0x0A, CHR 0x0B, CHR 0x0C, CHR 0x0D, CHR 0x20])"

definition trim :: "string \<Rightarrow> string" where
  "trim s = rev (dropWhile isWhiteSpace (rev (dropWhile isWhiteSpace s)))"

text \<open>\<open>s.split(sep)\<close> for a one-character separator: never empty, \<open>"".split(sep) = [""]\<close>.\<close>

fun splitOn :: "char \<Rightarrow> string \<Rightarrow> string list" where
  "splitOn sep [] = [[]]"
| "splitOn sep (c # cs) =
     (if c = sep then [] # splitOn sep cs
      else (case splitOn sep cs of
              [] \<Rightarrow> [[c]]
            | w # ws \<Rightarrow> (c # w) # ws))"

definition toLowerChar :: "char \<Rightarrow> char" where
  "toLowerChar c =
     (let n = (of_char c :: nat)
      in if 65 \<le> n \<and> n \<le> 90 then char_of (n + 32) else c)"

definition toLowerCase :: "string \<Rightarrow> string" where
  "toLowerCase s = map toLowerChar s"

fun startsWith :: "string \<Rightarrow> string \<Rightarrow> bool" where
  "startsWith s [] = True"
| "startsWith [] (p # ps) = False"
| "startsWith (c # cs) (p # ps) = (c = p \<and> startsWith cs ps)"

text \<open>\<open>s.includes(sub)\<close>: \<open>sub\<close> occurs in \<open>s\<close> as a contiguous substring.\<close>

fun includes_str :: "string \<Rightarrow> string \<Rightarrow> bool" where
  "includes_str [] sub = (sub = [])"
| "includes_str (c # cs) sub = (startsWith (c # cs) sub \<or> includes_str cs sub)"

text \<open>\<open>xs.findIndex(p)\<close>, with \<open>None\<close> for the result \<open>-1\<close>.\<close>

fun findIndex :: "('a \<Rightarrow> bool) \<Rightarrow> 'a list \<Rightarrow> nat option" where
  "findIndex p [] = None"
| "findIndex p (x # xs) =
     (if p x then Some 0 else map_option Suc (findIndex p xs))"

text \<open>\<open>s.replace(a, b)\<close> with one-character strings: only the first occurrence is replaced.\<close>

fun replaceFirst :: "char \<Rightarrow> char \<Rightarrow> string \<Rightarrow> string" where
  "replaceFirst a b [] = []"
| "replaceFirst a b (c # cs) = (if c = a then b # cs else c # replaceFirst a b cs)"

text \<open>\<open>xs[i]\<close>: reading past the end of an array gives \<open>undefined\<close>, here \<open>None\<close>.\<close>

definition element :: "'a list \<Rightarrow> nat \<Rightarrow> 'a option" where
  "element xs i = (if i < length xs then Some (xs ! i) else None)"

text \<open>\<open>parseCSVLine\<close>, lines 198-202.\<close>

definition parseCSVLine :: "string \<Rightarrow> string list" where
  "parseCSVLine text = map trim (splitOn CHR '','' text)"


section \<open>Dates\<close>

text \<open>
  A time value is a number of milliseconds since 1970-01-01T00:00:00Z. A \<open>Date\<close> holds a
  time value of magnitude at most \<open>8.64e15\<close> or is invalid.
\<close>

definition validTime :: "int \<Rightarrow> bool" where
  "validTime t = (\<bar>t\<bar> \<le> 8640000000000000)"

definition msPerDay :: int where
  "msPerDay = 86400000"

text \<open>The proleptic Gregorian date (year, month, day) of a day number counted from 1970-01-01.\<close>

definition civilFromDays :: "int \<Rightarrow> int \<times> int \<times> int" where
  "civilFromDays z =
     (let z1 = z + 719468;
          era = z1 div 146097;
          doe = z1 - era * 146097;
          yoe = (doe - doe div 1460 + doe div 36524 - doe div 146096) div 365;
          doy = doe - (365 * yoe + yoe div 4 - yoe div 100);
          mp = (5 * doy + 2) div 153;
          d = doy - (153 * mp + 2) div 5 + 1;
          m = (if mp < 10 then mp + 3 else mp - 9);
          y = yoe + era * 400 + (if m \<le> 2 then 1 else 0)
      in (y, m, d))"

definition daysFromCivil :: "int \<Rightarrow> int \<Rightarrow> int \<Rightarrow> int" where
  "daysFromCivil y m d =
     (let y1 = (if m \<le> 2 then y - 1 else y);
          era = y1 div 400;
          yoe = y1 - era * 400;
          doy = (153 * (if m > 2 then m - 3 else m + 9) + 2) div 5 + d - 1;
          doe = yoe * 365 + yoe div 4 - yoe div 100 + doy
      in era * 146097 + doe - 719468)"

definition digitChar :: "nat \<Rightarrow> char" where
  "digitChar n = char_of (48 + n mod 10)"

text \<open>The decimal digits of \<open>n\<close>, the last \<open>w\<close> of them, padded with zeros.\<close>

fun padDigits :: "nat \<Rightarrow> nat \<Rightarrow> string" where
  "padDigits 0 n = []"
| "padDigits (Suc w) n = padDigits w (n div 10) @ [digitChar n]"

text \<open>
  The text of \<open>new Date(t).toISOString()\<close> before its \<open>T\<close>: \<open>YYYY-MM-DD\<close> for the years
  0 to 9999, and the expanded form with a sign and six year digits otherwise. It is the UTC
  date of \<open>t\<close>.
\<close>

definition isoDatePart :: "int \<Rightarrow> string" where
  "isoDatePart t =
     (case civilFromDays (t div msPerDay) of
        (y, m, d) \<Rightarrow>
          (if 0 \<le> y \<and> y \<le> 9999 then padDigits 4 (nat y)
           else (if y < 0 then ''-'' else ''+'') @ padDigits 6 (nat \<bar>y\<bar>))
          @ ''-'' @ padDigits 2 (nat m) @ ''-'' @ padDigits 2 (nat d))"


section \<open>The refresh pipeline: processCSV\<close>

datatype js_error = TypeError | RangeError

text \<open>
  The object pushed to \<open>data\<close> at lines 121-126. \<open>name\<close> is \<open>parts[nameIdx]\<close>, which is
  \<open>undefined\<close> (\<open>None\<close>) when the row has no such column.
\<close>

record entry =
  name :: "string option"
  timestamp :: string
  date :: string
  isoTime :: int

text \<open>The variables of lines 83-89 that the loop updates.\<close>

record loop_state =
  data :: "entry list"
  uniqueWorkersToday :: "string option list"
  rawLastTime :: int
  lastWorkerName :: "string option"
  lastWorkerTime :: string

definition initialState :: loop_state where
  "initialState =
     \<lparr>data = [], uniqueWorkersToday = [], rawLastTime = 0,
      lastWorkerName = Some ''None'', lastWorkerTime = ''No activity yet''\<rparr>"

text \<open>\<open>Set.prototype.add\<close> on a set kept as the list of its members in insertion order.\<close>

definition setAdd :: "'a \<Rightarrow> 'a list \<Rightarrow> 'a list" where
  "setAdd x xs = (if x \<in> set xs then xs else xs @ [x])"

text \<open>
  Lines 93-118 of the loop body, up to the point where the row is known to be an event.
  The parameters are the browser's: \<open>parseDate s\<close> is \<open>new Date(s).getTime()\<close> with \<open>None\<close>
  for \<open>NaN\<close>, and \<open>tzOffset t\<close> is \<open>getTimezoneOffset()\<close> of the date with time value \<open>t\<close>.
  A row is skipped (\<open>continue\<close>), or throws, or gives the fields of an event. Line 103
  calls \<open>replace\<close> on \<open>parts[timeIdx]\<close> and throws a \<open>TypeError\<close> when that is \<open>undefined\<close>;
  line 112 calls \<open>toISOString\<close> on a date that is invalid when the shifted time value
  leaves the range of time values, which throws a \<open>RangeError\<close>.
\<close>

datatype row_result = Skipped | Threw js_error | Parsed entry

definition parseRow ::
  "(string \<Rightarrow> int option) \<Rightarrow> (int \<Rightarrow> int) \<Rightarrow> nat \<Rightarrow> nat \<Rightarrow> string \<Rightarrow> row_result" where
  "parseRow parseDate tzOffset nameIdx timeIdx rowUTC =
     (if trim rowUTC = [] then Skipped
      else let parts = parseCSVLine rowUTC in
        if length parts < 2 then Skipped
        else (case element parts timeIdx of
                None \<Rightarrow> Threw TypeError
              | Some timestampStr \<Rightarrow>
                  (case parseDate (replaceFirst CHR '' '' CHR ''T'' timestampStr) of
                     None \<Rightarrow> Skipped
                   | Some t \<Rightarrow>
                       if \<not> validTime (t - tzOffset t * 60000) then Threw RangeError
                       else Parsed \<lparr>name = element parts nameIdx,
                                    timestamp = timestampStr,
                                    date = hd (splitOn CHR '' '' timestampStr),
                                    isoTime = t\<rparr>)))"

text \<open>Lines 120-135: the today filter, then the running maximum.\<close>

definition aggregate :: "string \<Rightarrow> loop_state \<Rightarrow> entry \<Rightarrow> loop_state" where
  "aggregate today s e =
     (let s1 = (if date e = today
                then s\<lparr>data := data s @ [e],
                       uniqueWorkersToday := setAdd (name e) (uniqueWorkersToday s)\<rparr>
                else s)
      in if isoTime e > rawLastTime s1
         then s1\<lparr>rawLastTime := isoTime e,
                 lastWorkerName := name e,
                 lastWorkerTime := timestamp e\<rparr>
         else s1)"

text \<open>The loop of lines 92-136 over the lines after the header; an exception ends it.\<close>

fun rowsLoop ::
  "(string \<Rightarrow> int option) \<Rightarrow> (int \<Rightarrow> int) \<Rightarrow> nat \<Rightarrow> nat \<Rightarrow> string \<Rightarrow>
   loop_state \<Rightarrow> string list \<Rightarrow> js_error + loop_state" where
  "rowsLoop parseDate tzOffset nameIdx timeIdx today s [] = Inr s"
| "rowsLoop parseDate tzOffset nameIdx timeIdx today s (l # ls) =
     (case parseRow parseDate tzOffset nameIdx timeIdx l of
        Skipped \<Rightarrow> rowsLoop parseDate tzOffset nameIdx timeIdx today s ls
      | Threw err \<Rightarrow> Inl err
      | Parsed e \<Rightarrow> rowsLoop parseDate tzOffset nameIdx timeIdx today (aggregate today s e) ls)"

text \<open>
  What one run hands over at lines 138-139: the three arguments of
  \<open>updateDashboardStats\<close> and the argument of \<open>updateTable\<close>.
\<close>

record handoff =
  todayCount :: nat
  lastWorker :: "string option"
  lastTimestampRaw :: string
  todayEvents :: "entry list"

text \<open>
  The ways \<open>processCSV\<close> ends: the silent return of line 69, the logged return of lines
  78-81, an exception out of the loop, or the two calls of lines 138-139.
\<close>

datatype outcome = NoData | SchemaError | Thrown js_error | Updated handoff

definition resolveHeader :: "string \<Rightarrow> nat option \<times> nat option" where
  "resolveHeader headerLine =
     (let headers = map (\<lambda>h. toLowerCase (trim h)) (splitOn CHR '','' headerLine)
      in (findIndex (\<lambda>h. includes_str h ''name'') headers,
          findIndex (\<lambda>h. includes_str h ''timestamp'') headers))"

definition processCSV ::
  "(string \<Rightarrow> int option) \<Rightarrow> (int \<Rightarrow> int) \<Rightarrow> int \<Rightarrow> string \<Rightarrow> outcome" where
  "processCSV parseDate tzOffset now csvText =
     (let lines = splitOn CHR 0x0A (trim csvText) in
      if length lines < 2 then NoData
      else
        let today = take 10 (isoDatePart now) in
        (case resolveHeader (hd lines) of
           (Some nameIdx, Some timeIdx) \<Rightarrow>
             (case rowsLoop parseDate tzOffset nameIdx timeIdx today initialState (tl lines) of
                Inl err \<Rightarrow> Thrown err
              | Inr s \<Rightarrow>
                  Updated \<lparr>todayCount = length (uniqueWorkersToday s),
                           lastWorker = lastWorkerName s,
                           lastTimestampRaw = lastWorkerTime s,
                           todayEvents = data s\<rparr>)
         | _ \<Rightarrow> SchemaError))"

text \<open>
  Lines 113-114 compute the local calendar date of the clock reading, \<open>todayLocal\<close>; the
  loop never reads it.
\<close>

definition todayLocal :: "(int \<Rightarrow> int) \<Rightarrow> int \<Rightarrow> string" where
  "todayLocal tzOffset now = hd (splitOn CHR ''T'' (isoDatePart (now - tzOffset now * 60000)))"

text \<open>
  \<open>updateTable\<close>, lines 163-196, as far as the order of the painted rows goes: nothing is
  painted without a table body; otherwise \<open>data.sort\<close> with the comparator
  \<open>b.isoTime - a.isoTime\<close>, a stable sort, puts the rows in the order they are painted in.
\<close>

definition updateTable :: "bool \<Rightarrow> entry list \<Rightarrow> entry list option" where
  "updateTable hasTableBody d =
     (if \<not> hasTableBody then None else Some (sort_key (\<lambda>row. - isoTime row) d))"


section \<open>Numbers and the hygiene percentage\<close>

text \<open>
  An ECMAScript Number: a binary64 value (as the rational it denotes, the two zeros
  identified), an infinity, or NaN.
\<close>

datatype number = Finite rat | PosInfinity | NegInfinity | NaN

definition roundHalfEven :: "rat \<Rightarrow> int" where
  "roundHalfEven x =
     (let f = \<lfloor>x\<rfloor>; d = x - of_int f
      in if d < 1/2 then f else if 1/2 < d then f + 1 else if even f then f else f + 1)"

text \<open>For \<open>0 < x\<close>, the exponent \<open>e\<close> with \<open>2 powi e \<le> x < 2 powi (e + 1)\<close>.\<close>

definition floorLog2 :: "rat \<Rightarrow> int" where
  "floorLog2 x =
     (case quotient_of x of
        (p, q) \<Rightarrow> (let e = bitlen p - bitlen q in if 2 powi e \<le> x then e else e - 1))"

text \<open>
  Rounding of an exact result to binary64, to nearest with ties to even: 53 significant
  bits, the spacing of the subnormal numbers below \<open>2 powi (-1022)\<close>, and overflow to an
  infinity from \<open>2 powi 1024\<close> on.
\<close>

definition binary64 :: "rat \<Rightarrow> number" where
  "binary64 x =
     (if x = 0 then Finite 0
      else
        let a = \<bar>x\<bar>;
            e = max (floorLog2 a) (- 1022);
            ulp = 2 powi (e - 52);
            r = of_int (roundHalfEven (a / ulp)) * ulp
        in if 2 powi 1024 \<le> r then (if 0 < x then PosInfinity else NegInfinity)
           else Finite (sgn x * r))"

text \<open>The operators \<open>/\<close> and \<open>*\<close>, \<open>Math.round\<close> and \<open>Math.min\<close>.\<close>

fun divide_num :: "number \<Rightarrow> number \<Rightarrow> number" where
  "divide_num (Finite a) (Finite b) =
     (if b = 0 then (if a = 0 then NaN else if 0 < a then PosInfinity else NegInfinity)
      else binary64 (a / b))"
| "divide_num NaN y = NaN"
| "divide_num x NaN = NaN"
| "divide_num (Finite a) y = Finite 0"
| "divide_num x (Finite b) =
     (if (x = PosInfinity) = (0 \<le> b) then PosInfinity else NegInfinity)"
| "divide_num x y = NaN"

fun multiply_num :: "number \<Rightarrow> number \<Rightarrow> number" where
  "multiply_num (Finite a) (Finite b) = binary64 (a * b)"
| "multiply_num NaN y = NaN"
| "multiply_num x NaN = NaN"
| "multiply_num (Finite a) y =
     (if a = 0 then NaN else if (y = PosInfinity) = (0 < a) then PosInfinity else NegInfinity)"
| "multiply_num x (Finite b) =
     (if b = 0 then NaN else if (x = PosInfinity) = (0 < b) then PosInfinity else NegInfinity)"
| "multiply_num x y = (if x = y then PosInfinity else NegInfinity)"

fun mathRound :: "number \<Rightarrow> number" where
  "mathRound (Finite x) = Finite (of_int \<lfloor>x + 1/2\<rfloor>)"
| "mathRound x = x"

fun mathMin :: "number \<Rightarrow> number \<Rightarrow> number" where
  "mathMin NaN y = NaN"
| "mathMin x NaN = NaN"
| "mathMin NegInfinity y = NegInfinity"
| "mathMin x NegInfinity = NegInfinity"
| "mathMin PosInfinity y = y"
| "mathMin x PosInfinity = x"
| "mathMin (Finite a) (Finite b) = Finite (min a b)"

text \<open>
  Line 147 of \<open>updateDashboardStats\<close>, with the configured \<open>TOTAL_WORKERS_ESTIMATE\<close> as
  a parameter. The count \<open>cnt\<close> is the size of a set and the estimate an integer literal: integers
  below \<open>2 ^ 53\<close> in magnitude, which binary64 holds exactly.
\<close>

definition percent :: "int \<Rightarrow> nat \<Rightarrow> number" where
  "percent totalEstimate cnt =
     mathMin (Finite 100)
       (mathRound (multiply_num (divide_num (Finite (of_nat cnt)) (Finite (of_int totalEstimate)))
          (Finite 100)))"



section \<open>A date parser for closed examples\<close>

text \<open>
  \<open>parseDate\<close> is a parameter of the pipeline, since what \<open>new Date(string)\<close> accepts
  beyond the ECMAScript date-time format is left to the browser. \<open>isoParse\<close> is a
  stand-in for it that is narrower than any browser's parser: it reads only the two forms
  \<open>YYYY-MM-DD\<close> (a UTC midnight) and \<open>YYYY-MM-DDTHH:mm:ss\<close> (local time, in a zone
  whose \<open>getTimezoneOffset()\<close> is the constant \<open>offsetMinutes\<close>) with a day that
  exists in the month and an hour below 24, and rejects every other string, among them
  strings that a browser accepts (\<open>2024-03-15T08:00\<close>, \<open>2024-03-15T24:00:00\<close>,
  \<open>2024-02-30T08:00:00\<close>). It is applied only to strings of the two forms, where it
  gives the time value that ECMAScript prescribes.
\<close>

definition isDigit :: "char \<Rightarrow> bool" where
  "isDigit c = (let n = (of_char c :: nat) in 48 \<le> n \<and> n \<le> 57)"

definition decimal :: "string \<Rightarrow> int" where
  "decimal s = foldl (\<lambda>a c. 10 * a + (int (of_char c) - 48)) 0 s"

definition daysInMonth :: "int \<Rightarrow> int \<Rightarrow> int" where
  "daysInMonth y m =
     (if m = 2 then (if y mod 4 = 0 \<and> (y mod 100 \<noteq> 0 \<or> y mod 400 = 0) then 29 else 28)
      else if m = 4 \<or> m = 6 \<or> m = 9 \<or> m = 11 then 30 else 31)"

definition isoParse :: "int \<Rightarrow> string \<Rightarrow> int option" where
  "isoParse offsetMinutes s =
     (let n = length s;
          field = (\<lambda>i k. take k (drop i s));
          withTime = (n = 19)
      in if (n = 10 \<or>
             (withTime \<and> s ! 10 = CHR ''T'' \<and> s ! 13 = CHR '':'' \<and> s ! 16 = CHR '':'' \<and>
              list_all isDigit (field 11 2 @ field 14 2 @ field 17 2)))
            \<and> s ! 4 = CHR ''-'' \<and> s ! 7 = CHR ''-''
            \<and> list_all isDigit (field 0 4 @ field 5 2 @ field 8 2)
         then
           let y = decimal (field 0 4); m = decimal (field 5 2); d = decimal (field 8 2);
               h = (if withTime then decimal (field 11 2) else 0);
               mi = (if withTime then decimal (field 14 2) else 0);
               sec = (if withTime then decimal (field 17 2) else 0)
           in if 1 \<le> m \<and> m \<le> 12 \<and> 1 \<le> d \<and> d \<le> daysInMonth y m \<and>
                 h \<le> 23 \<and> mi \<le> 59 \<and> sec \<le> 59
              then Some (daysFromCivil y m d * msPerDay + ((h * 60 + mi) * 60 + sec) * 1000
                         + (if withTime then offsetMinutes * 60000 else 0))
              else None
         else None)"


section \<open>The events of a document\<close>

text \<open>
  The parsed Events of the specification: the rows after the header that the loop neither
  skips nor fails on, in order of appearance, each with its name, raw timestamp, date
  part and time value.
\<close>

definition parsedEvents ::
  "(string \<Rightarrow> int option) \<Rightarrow> (int \<Rightarrow> int) \<Rightarrow> nat \<Rightarrow> nat \<Rightarrow> string list \<Rightarrow> entry list" where
  "parsedEvents parseDate tzOffset nameIdx timeIdx rows =
     List.map_filter
       (\<lambda>l. case parseRow parseDate tzOffset nameIdx timeIdx l of
               Parsed e \<Rightarrow> Some e
             | _ \<Rightarrow> None) rows"

definition documentEvents ::
  "(string \<Rightarrow> int option) \<Rightarrow> (int \<Rightarrow> int) \<Rightarrow> string \<Rightarrow> entry list" where
  "documentEvents parseDate tzOffset csvText =
     (let lines = splitOn CHR 0x0A (trim csvText)
      in case resolveHeader (hd lines) of
           (Some nameIdx, Some timeIdx) \<Rightarrow>
             parsedEvents parseDate tzOffset nameIdx timeIdx (tl lines)
         | _ \<Rightarrow> [])"

text \<open>The first event, in order of appearance, that no event is later than.\<close>

definition latestEvent :: "entry list \<Rightarrow> entry option" where
  "latestEvent es = find (\<lambda>e. \<forall>e' \<in> set es. isoTime e' \<le> isoTime e) es"



text \<open>The three variables of the last access, and their initial values.\<close>

definition last3 :: "loop_state \<Rightarrow> int \<times> string option \<times> string" where
  "last3 s = (rawLastTime s, lastWorkerName s, lastWorkerTime s)"

definition sentinel :: "string option \<times> string" where
  "sentinel = (Some ''None'', ''No activity yet'')"


section \<open>Example documents\<close>

text \<open>
  The clock reading \<open>1710460800000\<close> is 2024-03-15T00:00:00Z, and \<open>1710448200000\<close> is
  2024-03-14T20:30:00Z, which is 02:00 on 2024-03-15 in a zone five and a half hours
  ahead of UTC (\<open>getTimezoneOffset() = -330\<close>). The first document is the one of the
  specification's first scenario.
\<close>

definition scenario1 :: string where
  "scenario1 =
     ''Name,Timestamp\<newline>Alice,2024-03-15 08:00:00\<newline>Bob,2024-03-15 08:05:00\<newline>Alice,2024-03-14 09:00:00''"

definition headerOnly :: string where
  "headerOnly = ''Name,Timestamp''"

definition unparseableBody :: string where
  "unparseableBody = ''Name,Timestamp\<newline>Carol,not-a-date''"

definition before1970 :: string where
  "before1970 = ''Name,Timestamp\<newline>Alice,1960-01-01 00:00:00''"

definition clockReset :: string where
  "clockReset = ''Name,Timestamp\<newline>Alice,1970-01-01 00:00:12''"

definition missingName :: string where
  "missingName = ''Timestamp,Id,Name\<newline>2024-03-15 08:00:00,7''"

definition tied :: string where
  "tied = ''Name,Timestamp\<newline>Alice,2024-03-15 08:00:00\<newline>Bob,2024-03-15 08:00:00''"

definition noColumns :: string where
  "noColumns = ''X,Y''"

definition noColumnsBody :: string where
  "noColumnsBody = ''X,Y\<newline>Alice,2024-03-15 08:00:00''"

definition shortRow :: string where
  "shortRow = ''Id,Name,Timestamp\<newline>1,Alice\<newline>2,Bob,2024-03-15 08:05:00''"

definition dateOnly :: string where
  "dateOnly = ''Name,Timestamp\<newline>Dana,2024-03-15''"

definition earlyMorning :: string where
  "earlyMorning = ''Name,Timestamp\<newline>Asha,2024-03-15 01:00:00''"

section \<open>Splitting and the loop\<close>

lemma splitOn_not_Nil: "splitOn c s \<noteq> []"
  by (induction s) (auto split: list.splits)

lemma length_splitOn: "length (splitOn c s) = Suc (length (filter (\<lambda>x. x = c) s))"
  by (induction s) (auto split: list.splits simp: splitOn_not_Nil)

lemma hd_splitOn: "hd (splitOn c s) = takeWhile (\<lambda>x. x \<noteq> c) s"
  by (induction s) (auto split: list.splits simp: splitOn_not_Nil)

lemma single_line_iff: "length (splitOn c s) < 2 \<longleftrightarrow> c \<notin> set s"
  by (auto simp: length_splitOn filter_empty_conv)

lemma parsedEvents_Nil: "parsedEvents pd tz ni ti [] = []"
  by (simp add: parsedEvents_def map_filter_simps)

lemma parsedEvents_Cons:
  "parsedEvents pd tz ni ti (l # ls) =
     (case parseRow pd tz ni ti l of Parsed e \<Rightarrow> [e] | _ \<Rightarrow> []) @ parsedEvents pd tz ni ti ls"
  by (simp add: parsedEvents_def map_filter_simps split: row_result.splits)

text \<open>A loop that ends normally has folded \<open>aggregate\<close> over the events of its rows.\<close>

lemma rowsLoop_Inr:
  "rowsLoop pd tz ni ti today s rows = Inr s' \<Longrightarrow>
     s' = foldl (aggregate today) s (parsedEvents pd tz ni ti rows)"
  by (induction rows arbitrary: s)
     (auto simp: parsedEvents_Nil parsedEvents_Cons split: row_result.splits)

lemma rowsLoop_no_throw:
  "(\<forall>l \<in> set rows. \<forall>err. parseRow pd tz ni ti l \<noteq> Threw err) \<Longrightarrow>
     rowsLoop pd tz ni ti today s rows =
       Inr (foldl (aggregate today) s (parsedEvents pd tz ni ti rows))"
  by (induction rows arbitrary: s)
     (auto simp: parsedEvents_Nil parsedEvents_Cons split: row_result.splits)

lemma rowsLoop_Inl:
  "rowsLoop pd tz ni ti today s rows = Inl err \<Longrightarrow>
     \<exists>l \<in> set rows. parseRow pd tz ni ti l = Threw err"
  by (induction rows arbitrary: s) (auto split: row_result.splits)

lemma data_foldl:
  "data (foldl (aggregate t) s es) = data s @ filter (\<lambda>e. date e = t) es"
  by (induction es arbitrary: s) (auto simp: aggregate_def Let_def)

lemma unique_foldl_set:
  "set (uniqueWorkersToday (foldl (aggregate t) s es)) =
     set (uniqueWorkersToday s) \<union> name ` {e \<in> set es. date e = t}"
  by (induction es arbitrary: s) (auto simp: aggregate_def Let_def setAdd_def)

lemma unique_foldl_distinct:
  "distinct (uniqueWorkersToday s) \<Longrightarrow>
     distinct (uniqueWorkersToday (foldl (aggregate t) s es))"
  by (induction es arbitrary: s) (auto simp: aggregate_def Let_def setAdd_def)

text \<open>What a completed run hands over, in terms of the events of the document.\<close>

lemma processCSV_Updated:
  assumes "processCSV pd tz now csvText = Updated out"
  shows "\<exists>s. s = foldl (aggregate (take 10 (isoDatePart now))) initialState
                   (documentEvents pd tz csvText) \<and>
             out = \<lparr>todayCount = length (uniqueWorkersToday s), lastWorker = lastWorkerName s,
                    lastTimestampRaw = lastWorkerTime s, todayEvents = data s\<rparr>"
  using assms
  by (auto simp: processCSV_def documentEvents_def Let_def
           split: if_splits prod.splits option.splits sum.splits dest!: rowsLoop_Inr)

lemma parseRow_date:
  "parseRow pd tz ni ti l = Parsed e \<Longrightarrow>
     date e = takeWhile (\<lambda>c. c \<noteq> CHR '' '') (timestamp e)"
  by (auto simp: parseRow_def Let_def hd_splitOn split: if_splits option.splits)

lemma parsedEvents_set:
  "e \<in> set (parsedEvents pd tz ni ti rows) \<Longrightarrow>
     \<exists>l \<in> set rows. parseRow pd tz ni ti l = Parsed e"
  by (induction rows) (auto simp: parsedEvents_Nil parsedEvents_Cons split: row_result.splits)

lemma documentEvents_set:
  "e \<in> set (documentEvents pd tz csvText) \<Longrightarrow> \<exists>ni ti l. parseRow pd tz ni ti l = Parsed e"
  by (auto simp: documentEvents_def Let_def split: prod.splits option.splits
           dest!: parsedEvents_set)

lemma trim_Nil_iff: "trim s = [] \<longleftrightarrow> (\<forall>c \<in> set s. isWhiteSpace c)"
proof
  assume t: "trim s = []"
  then have "dropWhile isWhiteSpace (rev (dropWhile isWhiteSpace s)) = []" by (simp add: trim_def)
  then have "\<forall>c \<in> set (dropWhile isWhiteSpace s). isWhiteSpace c" by (simp add: dropWhile_eq_Nil_conv)
  moreover have "dropWhile isWhiteSpace s \<noteq> [] \<Longrightarrow> \<not> isWhiteSpace (hd (dropWhile isWhiteSpace s))"
    by (rule hd_dropWhile)
  ultimately have "dropWhile isWhiteSpace s = []" by (cases "dropWhile isWhiteSpace s") auto
  then show "\<forall>c \<in> set s. isWhiteSpace c" by (simp add: dropWhile_eq_Nil_conv)
next
  assume "\<forall>c \<in> set s. isWhiteSpace c"
  then have "dropWhile isWhiteSpace s = []" by (simp add: dropWhile_eq_Nil_conv)
  then show "trim s = []" by (simp only: trim_def rev.simps dropWhile.simps)
qed

lemma blank_row_one_field:
  assumes "trim s = []"
  shows "length (parseCSVLine s) < 2"
proof -
  from assms have "\<forall>c \<in> set s. isWhiteSpace c" by (simp only: trim_Nil_iff)
  moreover have "\<not> isWhiteSpace CHR '',''" by (simp add: isWhiteSpace_def)
  ultimately have "CHR '','' \<notin> set s" by blast
  then have "length (splitOn CHR '','' s) < 2" using single_line_iff [of "CHR '',''" s] by blast
  then show ?thesis by (simp add: parseCSVLine_def)
qed

lemma replaceFirst_absent: "a \<notin> set s \<Longrightarrow> replaceFirst a b s = s"
  by (induction s) auto

lemma rowsLoop_Inr_no_throw:
  "rowsLoop pd tz ni ti today s rows = Inr s' \<Longrightarrow> l \<in> set rows \<Longrightarrow>
     parseRow pd tz ni ti l \<noteq> Threw err"
  by (induction rows arbitrary: s) (auto split: row_result.splits)

lemma parsedEvents_mem:
  "l \<in> set rows \<Longrightarrow> parseRow pd tz ni ti l = Parsed e \<Longrightarrow> e \<in> set (parsedEvents pd tz ni ti rows)"
  by (induction rows) (auto simp: parsedEvents_Nil parsedEvents_Cons split: row_result.splits)

lemma parseRow_parse:
  "parseRow pd tz ni ti l = Parsed e \<Longrightarrow>
     pd (replaceFirst CHR '' '' CHR ''T'' (timestamp e)) = Some (isoTime e)"
  by (auto simp: parseRow_def Let_def split: if_splits option.splits)

section \<open>The running maximum\<close>

lemma last3_aggregate:
  "last3 (aggregate t s e) =
     (if rawLastTime s < isoTime e then (isoTime e, name e, timestamp e) else last3 s)"
  by (simp add: aggregate_def last3_def Let_def)

lemma running_max_unchanged:
  "\<forall>e \<in> set es. isoTime e \<le> rawLastTime s \<Longrightarrow> last3 (foldl (aggregate t) s es) = last3 s"
proof (induction es arbitrary: s)
  case Nil
  then show ?case by simp
next
  case (Cons e es)
  have "last3 (aggregate t s e) = last3 s" using Cons.prems by (simp add: last3_aggregate)
  moreover from this have "rawLastTime (aggregate t s e) = rawLastTime s" by (simp add: last3_def)
  ultimately show ?case using Cons.IH [of "aggregate t s e"] Cons.prems by simp
qed

lemma running_max_first:
  "\<exists>e \<in> set es. rawLastTime s < isoTime e \<Longrightarrow>
     \<exists>i < length es.
        (\<forall>e \<in> set es. isoTime e \<le> isoTime (es ! i)) \<and>
        (\<forall>j < i. isoTime (es ! j) < isoTime (es ! i)) \<and>
        rawLastTime s < isoTime (es ! i) \<and>
        last3 (foldl (aggregate t) s es) = (isoTime (es ! i), name (es ! i), timestamp (es ! i))"
proof (induction es arbitrary: s)
  case Nil
  then show ?case by simp
next
  case (Cons e es)
  let ?s1 = "aggregate t s e"
  show ?case
  proof (cases "\<exists>x \<in> set es. rawLastTime ?s1 < isoTime x")
    case True
    from Cons.IH [OF True] obtain i where i: "i < length es"
      "\<forall>x \<in> set es. isoTime x \<le> isoTime (es ! i)"
      "\<forall>j < i. isoTime (es ! j) < isoTime (es ! i)"
      "rawLastTime ?s1 < isoTime (es ! i)"
      "last3 (foldl (aggregate t) ?s1 es) = (isoTime (es ! i), name (es ! i), timestamp (es ! i))"
      by blast
    have r1: "rawLastTime ?s1 = max (rawLastTime s) (isoTime e)"
      using last3_aggregate [of t s e] by (auto simp: last3_def split: if_splits)
    have "\<forall>j < Suc i. isoTime ((e # es) ! j) < isoTime ((e # es) ! Suc i)"
      using i(3,4) r1 by (auto simp: less_Suc_eq_0_disj)
    moreover have "\<forall>x \<in> set (e # es). isoTime x \<le> isoTime ((e # es) ! Suc i)"
      using i(2,4) r1 by auto
    moreover have "rawLastTime s < isoTime ((e # es) ! Suc i)" using i(4) r1 by simp
    ultimately show ?thesis using i(1,5) by (intro exI [of _ "Suc i"]) simp
  next
    case False
    then have le: "\<forall>x \<in> set es. isoTime x \<le> rawLastTime ?s1" by (auto simp: not_less)
    have r1: "rawLastTime ?s1 = max (rawLastTime s) (isoTime e)"
      using last3_aggregate [of t s e] by (auto simp: last3_def split: if_splits)
    from Cons.prems le r1 have gt: "rawLastTime s < isoTime e" by auto
    then have "last3 ?s1 = (isoTime e, name e, timestamp e)" by (simp add: last3_aggregate)
    with running_max_unchanged [OF le, of t]
    have "last3 (foldl (aggregate t) s (e # es)) = (isoTime e, name e, timestamp e)" by simp
    moreover have "\<forall>x \<in> set (e # es). isoTime x \<le> isoTime e" using le r1 gt by auto
    ultimately show ?thesis using gt by (intro exI [of _ 0]) simp
  qed
qed

lemma latestEvent_first:
  assumes "i < length es" "\<forall>e \<in> set es. isoTime e \<le> isoTime (es ! i)"
    "\<forall>j < i. isoTime (es ! j) < isoTime (es ! i)"
  shows "latestEvent es = Some (es ! i)"
  unfolding latestEvent_def find_Some_iff
proof (intro exI [of _ i] conjI allI impI)
  fix j assume "j < i"
  with assms(3) have "isoTime (es ! j) < isoTime (es ! i)" by simp
  moreover have "es ! i \<in> set es" using assms(1) by simp
  ultimately show "\<not> (\<forall>e' \<in> set es. isoTime e' \<le> isoTime (es ! j))" by (auto simp: not_le)
qed (use assms in auto)

lemma latestEvent_max:
  "latestEvent es = Some e \<Longrightarrow> e \<in> set es \<and> (\<forall>e' \<in> set es. isoTime e' \<le> isoTime e)"
  unfolding latestEvent_def find_Some_iff by auto

lemma latestEvent_None: "latestEvent es = None \<longleftrightarrow> es = []"
proof
  assume n: "latestEvent es = None"
  show "es = []"
  proof (rule ccontr)
    assume "es \<noteq> []"
    then have "isoTime ` set es \<noteq> {}" "finite (isoTime ` set es)" by auto
    then have "Max (isoTime ` set es) \<in> isoTime ` set es" by (rule_tac Max_in)
    then obtain e where "e \<in> set es" "isoTime e = Max (isoTime ` set es)" by auto
    then have "e \<in> set es \<and> (\<forall>e' \<in> set es. isoTime e' \<le> isoTime e)" by auto
    with n show False unfolding latestEvent_def find_None_iff by blast
  qed
qed (simp add: latestEvent_def)

lemma last_access_fold:
  fixes es t
  defines "s \<equiv> foldl (aggregate t) initialState es"
  shows "(lastWorkerName s, lastWorkerTime s) =
           (case latestEvent es of
              Some e \<Rightarrow> if 0 < isoTime e then (name e, timestamp e) else sentinel
            | None \<Rightarrow> sentinel)"
proof (cases "\<exists>e \<in> set es. rawLastTime initialState < isoTime e")
  case True
  from running_max_first [OF True, of t] obtain i where i: "i < length es"
    "\<forall>e \<in> set es. isoTime e \<le> isoTime (es ! i)"
    "\<forall>j < i. isoTime (es ! j) < isoTime (es ! i)"
    "rawLastTime initialState < isoTime (es ! i)"
    "last3 s = (isoTime (es ! i), name (es ! i), timestamp (es ! i))"
    unfolding s_def by blast
  from latestEvent_first [OF i(1,2,3)] have "latestEvent es = Some (es ! i)" .
  moreover from i(4) have "0 < isoTime (es ! i)" by (simp add: initialState_def)
  moreover from i(5) have "(lastWorkerName s, lastWorkerTime s) = (name (es ! i), timestamp (es ! i))"
    by (simp add: last3_def)
  ultimately show ?thesis by simp
next
  case False
  then have le: "\<forall>e \<in> set es. isoTime e \<le> rawLastTime initialState" by (auto simp: not_less)
  from running_max_unchanged [OF le, of t] have "last3 s = last3 initialState"
    unfolding s_def .
  then have fields: "(lastWorkerName s, lastWorkerTime s) = sentinel"
    by (simp add: last3_def initialState_def sentinel_def)
  show ?thesis
  proof (cases "latestEvent es")
    case None
    with fields show ?thesis by simp
  next
    case (Some e)
    from latestEvent_max [OF Some] le have "isoTime e \<le> 0" by (auto simp: initialState_def)
    with Some fields show ?thesis by simp
  qed
qed

lemma latestEvent_positive:
  "(\<exists>e \<in> set es. 0 < isoTime e) \<longleftrightarrow> (\<exists>e. latestEvent es = Some e \<and> 0 < isoTime e)"
proof
  assume "\<exists>e \<in> set es. 0 < isoTime e"
  then obtain x where x: "x \<in> set es" "0 < isoTime x" by blast
  then have "es \<noteq> []" by auto
  then obtain e where e: "latestEvent es = Some e" using latestEvent_None [of es] by auto
  from latestEvent_max [OF e] x have "0 < isoTime e" by force
  with e show "\<exists>e. latestEvent es = Some e \<and> 0 < isoTime e" by blast
next
  assume "\<exists>e. latestEvent es = Some e \<and> 0 < isoTime e"
  then show "\<exists>e \<in> set es. 0 < isoTime e" using latestEvent_max by blast
qed

section \<open>Runs of the example documents\<close>

lemma today_2024_03_15: "take 10 (isoDatePart 1710460800000) = ''2024-03-15''"
  by code_simp

lemma scenario1_run:
  "processCSV (isoParse 0) (\<lambda>t. 0) 1710460800000 scenario1 =
     Updated \<lparr>todayCount = 2, lastWorker = Some ''Bob'',
              lastTimestampRaw = ''2024-03-15 08:05:00'',
              todayEvents =
                [\<lparr>name = Some ''Alice'', timestamp = ''2024-03-15 08:00:00'',
                  date = ''2024-03-15'', isoTime = 1710489600000\<rparr>,
                 \<lparr>name = Some ''Bob'', timestamp = ''2024-03-15 08:05:00'',
                  date = ''2024-03-15'', isoTime = 1710489900000\<rparr>]\<rparr>"
  by code_simp

lemma scenario1_latest:
  "latestEvent (documentEvents (isoParse 0) (\<lambda>t. 0) scenario1) =
     Some \<lparr>name = Some ''Bob'', timestamp = ''2024-03-15 08:05:00'',
           date = ''2024-03-15'', isoTime = 1710489900000\<rparr>"
  by code_simp

lemma tied_run:
  "processCSV (isoParse 0) (\<lambda>t. 0) 1710460800000 tied =
     Updated \<lparr>todayCount = 2, lastWorker = Some ''Alice'',
              lastTimestampRaw = ''2024-03-15 08:00:00'',
              todayEvents =
                [\<lparr>name = Some ''Alice'', timestamp = ''2024-03-15 08:00:00'',
                  date = ''2024-03-15'', isoTime = 1710489600000\<rparr>,
                 \<lparr>name = Some ''Bob'', timestamp = ''2024-03-15 08:00:00'',
                  date = ''2024-03-15'', isoTime = 1710489600000\<rparr>]\<rparr>"
  by code_simp

lemma tied_latest:
  "latestEvent (documentEvents (isoParse 0) (\<lambda>t. 0) tied) =
     Some \<lparr>name = Some ''Alice'', timestamp = ''2024-03-15 08:00:00'',
           date = ''2024-03-15'', isoTime = 1710489600000\<rparr>"
  by code_simp

lemma sentinel_not_a_date: "isoParse 0 ''NoTactivity yet'' = None"
  by code_simp

lemma headerOnly_trim: "CHR 0x0A \<notin> set (trim headerOnly)"
  by code_simp

lemma unparseableBody_run:
  "processCSV (isoParse 0) (\<lambda>t. 0) 1710460800000 unparseableBody =
     Updated \<lparr>todayCount = 0, lastWorker = Some ''None'',
              lastTimestampRaw = ''No activity yet'', todayEvents = []\<rparr>"
  by code_simp

lemma unparseableBody_events: "documentEvents (isoParse 0) (\<lambda>t. 0) unparseableBody = []"
  by code_simp

lemma noColumnsBody_header:
  "resolveHeader (hd (splitOn CHR 0x0A (trim noColumnsBody))) = (None, None)"
  by code_simp

lemma noColumnsBody_lines: "CHR 0x0A \<in> set (trim noColumnsBody)"
  by code_simp

lemma dateOnly_run:
  "processCSV (isoParse 0) (\<lambda>t. 0) 1710460800000 dateOnly =
     Updated \<lparr>todayCount = 1, lastWorker = Some ''Dana'', lastTimestampRaw = ''2024-03-15'',
              todayEvents = [\<lparr>name = Some ''Dana'', timestamp = ''2024-03-15'',
                               date = ''2024-03-15'', isoTime = 1710460800000\<rparr>]\<rparr>"
  by code_simp

lemma dateOnly_header:
  "resolveHeader (hd (splitOn CHR 0x0A (trim dateOnly))) = (Some 0, Some 1)"
  by code_simp

lemma dateOnly_row: "''Dana,2024-03-15'' \<in> set (tl (splitOn CHR 0x0A (trim dateOnly)))"
  by code_simp

lemma dateOnly_fields: "parseCSVLine ''Dana,2024-03-15'' = [''Dana'', ''2024-03-15'']"
  by code_simp

lemma dateOnly_parse: "isoParse 0 ''2024-03-15'' = Some 1710460800000"
  by code_simp


section \<open>The count of today's workers\<close>

text \<open>
  Claim C1. Whenever a run completes and hands its values over, \<open>todayCount\<close> is the
  number of distinct names among the events of the document whose date part is equal, as
  a string, to the reference string \<open>today\<close>; a worker with several events on that day
  counts once. The date part of an event is the text of its raw timestamp before the
  first space.
\<close>

theorem todayCount_distinct_names:
  assumes "processCSV pd tz now csvText = Updated out"
  shows "todayCount out =
           card (name ` {e \<in> set (documentEvents pd tz csvText).
                          date e = take 10 (isoDatePart now)})
         \<and> (\<forall>e \<in> set (documentEvents pd tz csvText).
               date e = takeWhile (\<lambda>c. c \<noteq> CHR '' '') (timestamp e))"
proof -
  let ?today = "take 10 (isoDatePart now)"
  let ?es = "documentEvents pd tz csvText"
  let ?s = "foldl (aggregate ?today) initialState ?es"
  from processCSV_Updated [OF assms]
  have "todayCount out = length (uniqueWorkersToday ?s)" by auto
  also have "\<dots> = card (set (uniqueWorkersToday ?s))"
    by (rule distinct_card [symmetric], rule unique_foldl_distinct) (simp add: initialState_def)
  also have "set (uniqueWorkersToday ?s) = name ` {e \<in> set ?es. date e = ?today}"
    by (simp add: unique_foldl_set initialState_def)
  finally have cnt: "todayCount out = card (name ` {e \<in> set ?es. date e = ?today})" .
  have "\<forall>e \<in> set ?es. date e = takeWhile (\<lambda>c. c \<noteq> CHR '' '') (timestamp e)"
    by (auto dest!: documentEvents_set parseRow_date)
  with cnt show ?thesis by blast
qed

theorem todayCount_distinct_names_witness:
  "processCSV (isoParse 0) (\<lambda>t. 0) 1710460800000 scenario1 =
     Updated \<lparr>todayCount = 2, lastWorker = Some ''Bob'',
              lastTimestampRaw = ''2024-03-15 08:05:00'',
              todayEvents =
                [\<lparr>name = Some ''Alice'', timestamp = ''2024-03-15 08:00:00'',
                  date = ''2024-03-15'', isoTime = 1710489600000\<rparr>,
                 \<lparr>name = Some ''Bob'', timestamp = ''2024-03-15 08:05:00'',
                  date = ''2024-03-15'', isoTime = 1710489900000\<rparr>]\<rparr>
   \<and> card (name ` {e \<in> set (documentEvents (isoParse 0) (\<lambda>t. 0) scenario1).
                    date e = ''2024-03-15''}) = 2"
  using todayCount_distinct_names [OF scenario1_run] scenario1_run
  by (simp add: today_2024_03_15)

section \<open>The last access\<close>

text \<open>
  What the loop of lines 130-135 computes. The running maximum \<open>rawLastTime\<close> starts at
  0 and is replaced only by a strictly greater time value. So a completed run hands over
  the name and the raw timestamp of the first event, in order of appearance, among those
  with the greatest time value of the whole document (today or not) when that time value
  is positive, and the initial values \<open>None\<close> and \<open>No activity yet\<close> otherwise, also
  when the document does have events.
\<close>

lemma last_access_is_latest_positive_event:
  assumes "processCSV pd tz now csvText = Updated out"
  shows "(lastWorker out, lastTimestampRaw out) =
           (case latestEvent (documentEvents pd tz csvText) of
              Some e \<Rightarrow> if 0 < isoTime e then (name e, timestamp e) else sentinel
            | None \<Rightarrow> sentinel)
         \<and> (pd ''NoTactivity yet'' = None \<longrightarrow>
              (lastTimestampRaw out = ''No activity yet'' \<longleftrightarrow>
                 \<not> (\<exists>e \<in> set (documentEvents pd tz csvText). 0 < isoTime e)))"
proof -
  let ?es = "documentEvents pd tz csvText"
  let ?s = "foldl (aggregate (take 10 (isoDatePart now))) initialState ?es"
  from processCSV_Updated [OF assms]
  have out: "lastWorker out = lastWorkerName ?s" "lastTimestampRaw out = lastWorkerTime ?s"
    by auto
  have eq: "(lastWorker out, lastTimestampRaw out) =
           (case latestEvent ?es of
              Some e \<Rightarrow> if 0 < isoTime e then (name e, timestamp e) else sentinel
            | None \<Rightarrow> sentinel)"
    unfolding out by (rule last_access_fold)
  have "lastTimestampRaw out = ''No activity yet'' \<longleftrightarrow> \<not> (\<exists>e \<in> set ?es. 0 < isoTime e)"
    if np: "pd ''NoTactivity yet'' = None"
  proof (cases "\<exists>e. latestEvent ?es = Some e \<and> 0 < isoTime e")
    case True
    then obtain e where e: "latestEvent ?es = Some e" "0 < isoTime e" by blast
    with eq have ts: "lastTimestampRaw out = timestamp e" by simp
    from latestEvent_max [OF e(1)] have "e \<in> set ?es" by simp
    from documentEvents_set [OF this] obtain ni ti l where "parseRow pd tz ni ti l = Parsed e"
      by blast
    from parseRow_parse [OF this] np have "timestamp e \<noteq> ''No activity yet''" by auto
    with ts True show ?thesis by (simp add: latestEvent_positive)
  next
    case False
    with eq have "lastTimestampRaw out = ''No activity yet''"
      by (cases "latestEvent ?es") (auto simp: sentinel_def split: if_splits)
    with False show ?thesis by (simp add: latestEvent_positive)
  qed
  with eq show ?thesis by blast
qed

lemma last_access_examples:
  "processCSV (isoParse 0) (\<lambda>t. 0) 1710460800000 scenario1 =
     Updated \<lparr>todayCount = 2, lastWorker = Some ''Bob'',
              lastTimestampRaw = ''2024-03-15 08:05:00'',
              todayEvents =
                [\<lparr>name = Some ''Alice'', timestamp = ''2024-03-15 08:00:00'',
                  date = ''2024-03-15'', isoTime = 1710489600000\<rparr>,
                 \<lparr>name = Some ''Bob'', timestamp = ''2024-03-15 08:05:00'',
                  date = ''2024-03-15'', isoTime = 1710489900000\<rparr>]\<rparr>
   \<and> isoParse 0 ''NoTactivity yet'' = None
   \<and> latestEvent (documentEvents (isoParse 0) (\<lambda>t. 0) scenario1) =
       Some \<lparr>name = Some ''Bob'', timestamp = ''2024-03-15 08:05:00'',
             date = ''2024-03-15'', isoTime = 1710489900000\<rparr>
   \<and> (\<exists>e \<in> set (documentEvents (isoParse 0) (\<lambda>t. 0) scenario1). 0 < isoTime e)
   \<and> latestEvent (documentEvents (isoParse 0) (\<lambda>t. 0) tied) =
       Some \<lparr>name = Some ''Alice'', timestamp = ''2024-03-15 08:00:00'',
             date = ''2024-03-15'', isoTime = 1710489600000\<rparr>
   \<and> (\<exists>e \<in> set (documentEvents (isoParse 0) (\<lambda>t. 0) tied). 0 < isoTime e)"
proof -
  note t = last_access_is_latest_positive_event [OF scenario1_run]
  from t sentinel_not_a_date
  have "(''2024-03-15 08:05:00'' = ''No activity yet'') \<longleftrightarrow>
          \<not> (\<exists>e \<in> set (documentEvents (isoParse 0) (\<lambda>t. 0) scenario1). 0 < isoTime e)"
    by simp
  then have a: "\<exists>e \<in> set (documentEvents (isoParse 0) (\<lambda>t. 0) scenario1). 0 < isoTime e"
    by simp
  note u = last_access_is_latest_positive_event [OF tied_run]
  from u sentinel_not_a_date
  have "(''2024-03-15 08:00:00'' = ''No activity yet'') \<longleftrightarrow>
          \<not> (\<exists>e \<in> set (documentEvents (isoParse 0) (\<lambda>t. 0) tied). 0 < isoTime e)"
    by simp
  then have b: "\<exists>e \<in> set (documentEvents (isoParse 0) (\<lambda>t. 0) tied). 0 < isoTime e"
    by simp
  from a b scenario1_run sentinel_not_a_date scenario1_latest tied_latest
  show ?thesis by blast
qed

text \<open>
  A logger whose clock was reset writes a timestamp twelve seconds after 1970-01-01
  00:00 local time; in a zone ahead of UTC its time value is negative.
\<close>

lemma clock_reset_run:
  "documentEvents (isoParse (- 330)) (\<lambda>t. - 330) clockReset =
     [\<lparr>name = Some ''Alice'', timestamp = ''1970-01-01 00:00:12'',
       date = ''1970-01-01'', isoTime = - 19788000\<rparr>] \<and>
   processCSV (isoParse (- 330)) (\<lambda>t. - 330) 1710448200000 clockReset =
     Updated \<lparr>todayCount = 0, lastWorker = Some ''None'',
              lastTimestampRaw = ''No activity yet'', todayEvents = []\<rparr>"
  by code_simp

text \<open>
  Claim C2. \<open>lastWorker\<close> and \<open>lastTimestampRaw\<close> are to be the name and the raw
  timestamp of the event with the greatest time value over all events of the document,
  the first such event on a tie, and the sentinels exactly when the document has no
  event. The code falls short of that on a document whose events all lie at or before
  1970-01-01T00:00:00Z, since line 85 starts the running maximum at 0: here the document
  has one event, and the sentinels are handed over.
\<close>

theorem last_access_counterexample:
  "documentEvents (isoParse 0) (\<lambda>t. 0) before1970 =
     [\<lparr>name = Some ''Alice'', timestamp = ''1960-01-01 00:00:00'',
       date = ''1960-01-01'', isoTime = - 315619200000\<rparr>] \<and>
   processCSV (isoParse 0) (\<lambda>t. 0) 1710460800000 before1970 =
     Updated \<lparr>todayCount = 0, lastWorker = Some ''None'',
              lastTimestampRaw = ''No activity yet'', todayEvents = []\<rparr>"
  by code_simp


section \<open>Documents without rows, headers without columns\<close>

text \<open>
  Claim C8, as amended. A document that consists of a header line only makes
  \<open>processCSV\<close> return at its first check: nothing is handed over and the display keeps
  what it showed. The values \<open>todayCount = 0\<close>, \<open>lastWorker = None\<close> and
  \<open>lastTimestampRaw = No activity yet\<close> are what a completed run hands over when the
  document has no event.
\<close>

theorem header_only_hands_over_nothing:
  "(CHR 0x0A \<notin> set (trim csvText) \<longrightarrow> processCSV pd tz now csvText = NoData) \<and>
   (processCSV pd tz now csvText = Updated out \<and> documentEvents pd tz csvText = [] \<longrightarrow>
      out = \<lparr>todayCount = 0, lastWorker = Some ''None'',
             lastTimestampRaw = ''No activity yet'', todayEvents = []\<rparr>)"
proof (intro conjI impI)
  assume "CHR 0x0A \<notin> set (trim csvText)"
  then have "length (splitOn CHR 0x0A (trim csvText)) < 2" by (simp add: single_line_iff)
  then show "processCSV pd tz now csvText = NoData" by (simp add: processCSV_def)
next
  assume a: "processCSV pd tz now csvText = Updated out \<and> documentEvents pd tz csvText = []"
  with processCSV_Updated [of pd tz now csvText out]
  show "out = \<lparr>todayCount = 0, lastWorker = Some ''None'',
               lastTimestampRaw = ''No activity yet'', todayEvents = []\<rparr>"
    by (simp add: initialState_def)
qed

theorem header_only_hands_over_nothing_witness:
  "CHR 0x0A \<notin> set (trim headerOnly) \<and>
   processCSV (isoParse 0) (\<lambda>t. 0) 1710460800000 headerOnly = NoData \<and>
   documentEvents (isoParse 0) (\<lambda>t. 0) unparseableBody = [] \<and>
   processCSV (isoParse 0) (\<lambda>t. 0) 1710460800000 unparseableBody =
     Updated \<lparr>todayCount = 0, lastWorker = Some ''None'',
              lastTimestampRaw = ''No activity yet'', todayEvents = []\<rparr>"
proof -
  have "processCSV (isoParse 0) (\<lambda>t. 0) 1710460800000 headerOnly = NoData"
    using header_only_hands_over_nothing [of headerOnly "isoParse 0" "\<lambda>t. 0" 1710460800000]
      headerOnly_trim by blast
  with headerOnly_trim unparseableBody_run unparseableBody_events show ?thesis by blast
qed

theorem header_only_counterexample:
  "processCSV (isoParse 0) (\<lambda>t. 0) 1710460800000 headerOnly = NoData"
  by code_simp

text \<open>
  Claim C7, as amended. When the name column or the timestamp column cannot be found in
  the header, the document has no events and nothing is handed over: the run ends with
  the logged schema error if the trimmed text has at least two lines, and with the silent
  return of the first check if it has only one.
\<close>

theorem unresolved_header_aborts:
  assumes "fst (resolveHeader (hd (splitOn CHR 0x0A (trim csvText)))) = None \<or>
           snd (resolveHeader (hd (splitOn CHR 0x0A (trim csvText)))) = None"
  shows "processCSV pd tz now csvText =
           (if CHR 0x0A \<in> set (trim csvText) then SchemaError else NoData)
         \<and> documentEvents pd tz csvText = []"
  using assms
  by (auto simp: processCSV_def documentEvents_def Let_def single_line_iff
           split: prod.splits option.splits)

theorem unresolved_header_aborts_witness:
  "resolveHeader (hd (splitOn CHR 0x0A (trim noColumnsBody))) = (None, None) \<and>
   processCSV (isoParse 0) (\<lambda>t. 0) 1710460800000 noColumnsBody = SchemaError \<and>
   documentEvents (isoParse 0) (\<lambda>t. 0) noColumnsBody = []"
proof -
  have "fst (resolveHeader (hd (splitOn CHR 0x0A (trim noColumnsBody)))) = None \<or>
        snd (resolveHeader (hd (splitOn CHR 0x0A (trim noColumnsBody)))) = None"
    by (simp add: noColumnsBody_header)
  from unresolved_header_aborts [OF this, of "isoParse 0" "\<lambda>t. 0" 1710460800000]
  have "processCSV (isoParse 0) (\<lambda>t. 0) 1710460800000 noColumnsBody = SchemaError \<and>
        documentEvents (isoParse 0) (\<lambda>t. 0) noColumnsBody = []"
    by (simp only: noColumnsBody_lines if_True)
  with noColumnsBody_header show ?thesis by blast
qed

theorem unresolved_header_counterexample:
  "resolveHeader (hd (splitOn CHR 0x0A (trim noColumns))) = (None, None) \<and>
   processCSV (isoParse 0) (\<lambda>t. 0) 1710460800000 noColumns = NoData"
  by code_simp

section \<open>The order of today's events\<close>

text \<open>
  Claim C9, as amended. \<open>processCSV\<close> hands today's events to \<open>updateTable\<close> in their
  order of appearance in the document, not sorted. The descending order by time value is
  established inside \<open>updateTable\<close>, and only when the table body exists: the rows it
  paints are a rearrangement of the events it was given, latest first, and events with
  the same time value keep their order of appearance.
\<close>

theorem updateTable_sorts_descending:
  "updateTable False d = None \<and>
   (\<exists>rows. updateTable True d = Some rows \<and>
      sorted_wrt (\<lambda>a b. isoTime b \<le> isoTime a) rows \<and>
      mset rows = mset d \<and>
      (\<forall>k. filter (\<lambda>row. isoTime row = k) rows = filter (\<lambda>row. isoTime row = k) d)) \<and>
   (processCSV pd tz now csvText = Updated out \<longrightarrow>
      todayEvents out =
        filter (\<lambda>e. date e = take 10 (isoDatePart now)) (documentEvents pd tz csvText))"
proof (intro conjI impI)
  show "updateTable False d = None" by (simp add: updateTable_def)
next
  let ?rows = "sort_key (\<lambda>row. - isoTime row) d"
  have "sorted (map (\<lambda>row. - isoTime row) ?rows)" by (rule sorted_sort_key)
  then have "sorted_wrt (\<lambda>a b. isoTime b \<le> isoTime a) ?rows" by (simp add: sorted_map)
  moreover have "mset ?rows = mset d" by simp
  moreover have "filter (\<lambda>row. isoTime row = k) ?rows = filter (\<lambda>row. isoTime row = k) d" for k
    using sort_key_stable [of "\<lambda>row. - isoTime row" "- k" d] by simp
  ultimately show "\<exists>rows. updateTable True d = Some rows \<and>
      sorted_wrt (\<lambda>a b. isoTime b \<le> isoTime a) rows \<and>
      mset rows = mset d \<and>
      (\<forall>k. filter (\<lambda>row. isoTime row = k) rows = filter (\<lambda>row. isoTime row = k) d)"
    by (simp add: updateTable_def)
next
  assume "processCSV pd tz now csvText = Updated out"
  from processCSV_Updated [OF this]
  show "todayEvents out =
        filter (\<lambda>e. date e = take 10 (isoDatePart now)) (documentEvents pd tz csvText)"
    by (auto simp: data_foldl initialState_def)
qed

theorem updateTable_sorts_descending_witness:
  "processCSV (isoParse 0) (\<lambda>t. 0) 1710460800000 scenario1 =
     Updated \<lparr>todayCount = 2, lastWorker = Some ''Bob'',
              lastTimestampRaw = ''2024-03-15 08:05:00'',
              todayEvents =
                [\<lparr>name = Some ''Alice'', timestamp = ''2024-03-15 08:00:00'',
                  date = ''2024-03-15'', isoTime = 1710489600000\<rparr>,
                 \<lparr>name = Some ''Bob'', timestamp = ''2024-03-15 08:05:00'',
                  date = ''2024-03-15'', isoTime = 1710489900000\<rparr>]\<rparr>
   \<and> [\<lparr>name = Some ''Alice'', timestamp = ''2024-03-15 08:00:00'',
         date = ''2024-03-15'', isoTime = 1710489600000\<rparr>,
        \<lparr>name = Some ''Bob'', timestamp = ''2024-03-15 08:05:00'',
         date = ''2024-03-15'', isoTime = 1710489900000\<rparr>] =
       filter (\<lambda>e. date e = take 10 (isoDatePart 1710460800000))
         (documentEvents (isoParse 0) (\<lambda>t. 0) scenario1)"
proof -
  note t = updateTable_sorts_descending [of "[]" "isoParse 0" "\<lambda>t. 0" 1710460800000 scenario1]
  from t [THEN conjunct2, THEN conjunct2, rule_format, OF scenario1_run] scenario1_run
  show ?thesis by simp
qed

text \<open>
  The claim as stated fails on the first scenario: the events handed over are in
  ascending order of time.
\<close>

theorem handoff_order_counterexample:
  "processCSV (isoParse 0) (\<lambda>t. 0) 1710460800000 scenario1 =
     Updated \<lparr>todayCount = 2, lastWorker = Some ''Bob'',
              lastTimestampRaw = ''2024-03-15 08:05:00'',
              todayEvents =
                [\<lparr>name = Some ''Alice'', timestamp = ''2024-03-15 08:00:00'',
                  date = ''2024-03-15'', isoTime = 1710489600000\<rparr>,
                 \<lparr>name = Some ''Bob'', timestamp = ''2024-03-15 08:05:00'',
                  date = ''2024-03-15'', isoTime = 1710489900000\<rparr>]\<rparr>
   \<and> \<not> sorted_wrt (\<lambda>a b. isoTime b \<le> isoTime a)
         [\<lparr>name = Some ''Alice'', timestamp = ''2024-03-15 08:00:00'',
           date = ''2024-03-15'', isoTime = 1710489600000\<rparr>,
          \<lparr>name = Some ''Bob'', timestamp = ''2024-03-15 08:05:00'',
           date = ''2024-03-15'', isoTime = 1710489900000\<rparr>]"
  using scenario1_run by simp


section \<open>Timestamps without a time of day\<close>

text \<open>
  Claim C10. In a run that completes, a row with at least two fields whose timestamp
  field contains no space and parses as a date is an event of the document; its date
  part is the whole timestamp string. So when that string is equal to the reference
  string \<open>today\<close>, the event is among today's events and its worker is counted.
\<close>

theorem date_only_timestamp_is_counted:
  assumes run: "processCSV pd tz now csvText = Updated out"
    and header: "resolveHeader (hd (splitOn CHR 0x0A (trim csvText))) = (Some nameIdx, Some timeIdx)"
    and row: "rowUTC \<in> set (tl (splitOn CHR 0x0A (trim csvText)))"
    and fields: "2 \<le> length (parseCSVLine rowUTC)"
    and stamp: "element (parseCSVLine rowUTC) timeIdx = Some timestampStr"
    and nospace: "CHR '' '' \<notin> set timestampStr"
    and parses: "pd timestampStr = Some t"
  shows "\<lparr>name = element (parseCSVLine rowUTC) nameIdx, timestamp = timestampStr,
          date = timestampStr, isoTime = t\<rparr> \<in> set (documentEvents pd tz csvText)
         \<and> (timestampStr = take 10 (isoDatePart now) \<longrightarrow>
              \<lparr>name = element (parseCSVLine rowUTC) nameIdx, timestamp = timestampStr,
               date = timestampStr, isoTime = t\<rparr> \<in> set (todayEvents out)
              \<and> 1 \<le> todayCount out)"
proof -
  let ?e = "\<lparr>name = element (parseCSVLine rowUTC) nameIdx, timestamp = timestampStr,
             date = timestampStr, isoTime = t\<rparr>"
  let ?today = "take 10 (isoDatePart now)"
  let ?rows = "tl (splitOn CHR 0x0A (trim csvText))"
  let ?es = "documentEvents pd tz csvText"
  let ?s = "foldl (aggregate ?today) initialState ?es"
  from run header obtain s where "rowsLoop pd tz nameIdx timeIdx ?today initialState ?rows = Inr s"
    by (auto simp: processCSV_def Let_def split: if_splits sum.splits)
  from rowsLoop_Inr_no_throw [OF this row]
  have nothrow: "parseRow pd tz nameIdx timeIdx rowUTC \<noteq> Threw err" for err .
  have nonblank: "trim rowUTC \<noteq> []" using blank_row_one_field [of rowUTC] fields by auto
  have same: "replaceFirst CHR '' '' CHR ''T'' timestampStr = timestampStr"
    using nospace by (rule replaceFirst_absent)
  have whole: "hd (splitOn CHR '' '' timestampStr) = timestampStr"
    using nospace by (auto simp: hd_splitOn takeWhile_eq_all_conv)
  have valid: "validTime (t - tz t * 60000)"
    using nothrow [of RangeError] nonblank fields stamp parses same
    by (auto simp: parseRow_def Let_def split: if_splits)
  have "parseRow pd tz nameIdx timeIdx rowUTC = Parsed ?e"
    using nonblank fields stamp parses same whole valid by (simp add: parseRow_def Let_def)
  from parsedEvents_mem [OF row this] header
  have mem: "?e \<in> set ?es" by (simp add: documentEvents_def Let_def)
  have today: "?e \<in> set (todayEvents out) \<and> 1 \<le> todayCount out" if eq: "timestampStr = ?today"
  proof -
    from processCSV_Updated [OF run]
    have out: "todayEvents out = data ?s" "todayCount out = length (uniqueWorkersToday ?s)"
      by auto
    from mem eq have "?e \<in> set (data ?s)" by (simp add: data_foldl initialState_def)
    moreover from mem eq have "name ?e \<in> set (uniqueWorkersToday ?s)"
      unfolding unique_foldl_set by (intro UnI2 imageI) simp
    then have "uniqueWorkersToday ?s \<noteq> []" by auto
    then have "1 \<le> length (uniqueWorkersToday ?s)" by (cases "uniqueWorkersToday ?s") auto
    ultimately show ?thesis by (simp add: out)
  qed
  from mem today show ?thesis by blast
qed

theorem date_only_timestamp_is_counted_witness:
  "processCSV (isoParse 0) (\<lambda>t. 0) 1710460800000 dateOnly =
     Updated \<lparr>todayCount = 1, lastWorker = Some ''Dana'', lastTimestampRaw = ''2024-03-15'',
              todayEvents = [\<lparr>name = Some ''Dana'', timestamp = ''2024-03-15'',
                               date = ''2024-03-15'', isoTime = 1710460800000\<rparr>]\<rparr>
   \<and> resolveHeader (hd (splitOn CHR 0x0A (trim dateOnly))) = (Some 0, Some 1)
   \<and> ''Dana,2024-03-15'' \<in> set (tl (splitOn CHR 0x0A (trim dateOnly)))
   \<and> parseCSVLine ''Dana,2024-03-15'' = [''Dana'', ''2024-03-15'']
   \<and> CHR '' '' \<notin> set ''2024-03-15''
   \<and> isoParse 0 ''2024-03-15'' = Some 1710460800000
   \<and> ''2024-03-15'' = take 10 (isoDatePart 1710460800000)
   \<and> \<lparr>name = Some ''Dana'', timestamp = ''2024-03-15'', date = ''2024-03-15'',
        isoTime = 1710460800000\<rparr> \<in> set (documentEvents (isoParse 0) (\<lambda>t. 0) dateOnly)"
proof -
  have fields: "2 \<le> length (parseCSVLine ''Dana,2024-03-15'')"
    by (simp add: dateOnly_fields)
  have stamp: "element (parseCSVLine ''Dana,2024-03-15'') 1 = Some ''2024-03-15''"
    by (simp add: dateOnly_fields element_def)
  have nm: "element (parseCSVLine ''Dana,2024-03-15'') 0 = Some ''Dana''"
    by (simp add: dateOnly_fields element_def)
  have nospace: "CHR '' '' \<notin> set ''2024-03-15''" by simp
  from date_only_timestamp_is_counted
         [OF dateOnly_run dateOnly_header dateOnly_row fields stamp nospace dateOnly_parse]
  have "\<lparr>name = Some ''Dana'', timestamp = ''2024-03-15'', date = ''2024-03-15'',
         isoTime = 1710460800000\<rparr> \<in> set (documentEvents (isoParse 0) (\<lambda>t. 0) dateOnly)"
    unfolding nm by (rule conjunct1)
  with dateOnly_run dateOnly_header dateOnly_row dateOnly_fields nospace dateOnly_parse
    today_2024_03_15 show ?thesis by simp
qed


section \<open>Rows that end the run, and the reference date\<close>

text \<open>
  The same comparison with 2 at line 97 lets through a row that has the timestamp column
  but not the name column: \<open>parts[nameIdx]\<close> is \<open>undefined\<close>, and the row is counted
  as a worker without a name.
\<close>

lemma missing_name_is_counted:
  "processCSV (isoParse 0) (\<lambda>t. 0) 1710460800000 missingName =
     Updated \<lparr>todayCount = 1, lastWorker = None,
              lastTimestampRaw = ''2024-03-15 08:00:00'',
              todayEvents = [\<lparr>name = None, timestamp = ''2024-03-15 08:00:00'',
                               date = ''2024-03-15'', isoTime = 1710489600000\<rparr>]\<rparr>"
  by code_simp

text \<open>
  Claim C6. The claim holds for rows with fewer than two fields and for rows whose
  timestamp does not parse, which the loop skips. It fails for a row that has two fields
  or more but none at the timestamp column: line 97 compares the number of fields with
  the constant 2, not with the column indices, so line 103 calls \<open>replace\<close> on
  \<open>undefined\<close> and the exception ends the run, the rows after it unread.
\<close>

theorem short_row_throws:
  "processCSV (isoParse 0) (\<lambda>t. 0) 1710460800000 shortRow = Thrown TypeError"
  by code_simp

text \<open>
  Claim C5. The reference string \<open>today\<close> of line 71 is the UTC date of the clock
  reading, while lines 113-114 compute the local date and leave it unused. At 02:00
  local time in a zone ahead of UTC the two differ, and a row stamped with the local
  date is not counted.
\<close>

theorem today_is_utc_date:
  "take 10 (isoDatePart 1710448200000) = ''2024-03-14'' \<and>
   todayLocal (\<lambda>t. - 330) 1710448200000 = ''2024-03-15'' \<and>
   processCSV (isoParse (- 330)) (\<lambda>t. - 330) 1710448200000 earlyMorning =
     Updated \<lparr>todayCount = 0, lastWorker = Some ''Asha'',
              lastTimestampRaw = ''2024-03-15 01:00:00'', todayEvents = []\<rparr>"
  by code_simp

section \<open>Rounding to binary64\<close>

lemma roundHalfEven_of_int: "roundHalfEven (of_int n) = n"
  by (simp add: roundHalfEven_def)


lemma roundHalfEven_le_ceiling: "roundHalfEven x \<le> \<lfloor>x\<rfloor> + 1"
  by (simp add: roundHalfEven_def Let_def)



lemma two_powi_nat: "0 \<le> n \<Longrightarrow> (2::rat) powi n = 2 ^ nat n"
  by (rule power_int_nonneg_exp)


























section \<open>The hygiene percentage\<close>




text \<open>
  Claim C4, as amended. The code has no check of the estimate. With an estimate of 0 it
  signals nothing and computes the percentage all the same: \<open>NaN\<close> when the count is 0
  (\<open>0 / 0\<close>), and 100 when the count is positive, since \<open>Math.min\<close> cuts \<open>Infinity\<close> down
  to 100. \<open>Infinity\<close> itself is never the percentage.
\<close>

theorem percent_zero_estimate:
  "percent 0 cnt = (if cnt = 0 then NaN else Finite 100)"
  by (simp add: percent_def)

theorem percent_zero_estimate_witness:
  "percent 0 0 = NaN \<and> percent 0 3 = Finite 100"
  using percent_zero_estimate [of 0] percent_zero_estimate [of 3] by simp

theorem percent_zero_counterexample: "percent 0 0 = NaN"
  by (simp add: percent_def)

end
